theory Spec2Isabelle
  imports Main
begin

section \<open>Accession classification (\<open>SRA_AccessionType\<close>)\<close>

text \<open>
  The source scans the characters of the query with an integer state \<open>st\<close>, the
  remembered third character \<open>type\<close> and a digit counter \<open>digits\<close>.  A \<open>return\<close>
  inside the loop ends the scan with 0; \<open>goto DONE\<close> (on a dot in state 3) and the end
  of the string both reach the final
  \<^verbatim>\<open>return (6 <= digits && digits <= 9) ? type : 0;\<close>

  The counter is a C \<open>int\<close>; it is modelled as an unbounded \<open>int\<close>, the query being a
  command line argument whose length is far below \<open>2^31\<close>.  \<open>type = i\<close> converts a
  \<open>char\<close> to \<open>int\<close>; the value is only ever returned for one of the five ASCII letters
  accepted in state 2, where it is the character code.
\<close>

definition is_dec_digit :: "char \<Rightarrow> bool" where
  \<comment> \<open>\<^verbatim>\<open>'0' <= i && i <= '9'\<close>\<close>
  "is_dec_digit i \<longleftrightarrow> (48::nat) \<le> of_char i \<and> of_char i \<le> (57::nat)"

definition type_code :: "char \<Rightarrow> int" where
  "type_code i = int (of_char i)"

definition accession_done :: "int \<Rightarrow> int \<Rightarrow> int" where
  "accession_done type digits = (if 6 \<le> digits \<and> digits \<le> 9 then type else 0)"

fun accession_scan :: "int \<Rightarrow> int \<Rightarrow> int \<Rightarrow> string \<Rightarrow> int" where
  "accession_scan st type digits [] = accession_done type digits"
| "accession_scan st type digits (i # query) =
     (if st = 0 then
        (if i = CHR ''D'' \<or> i = CHR ''E'' \<or> i = CHR ''S''
         then accession_scan (st + 1) type digits query
         else 0)
      else if st = 1 then
        (if i \<noteq> CHR ''R'' then 0
         else accession_scan (st + 1) type digits query)
      else if st = 2 then
        (if i = CHR ''A'' \<or> i = CHR ''P'' \<or> i = CHR ''R'' \<or> i = CHR ''S'' \<or> i = CHR ''X''
         then accession_scan (st + 1) (type_code i) digits query
         else 0)
      else if st = 3 then
        (if i = CHR ''.'' then accession_done type digits
         else if \<not> is_dec_digit i then 0
         else accession_scan st type (digits + 1) query)
      else accession_scan st type digits query)"

definition SRA_AccessionType :: "string \<Rightarrow> int" where
  "SRA_AccessionType query = accession_scan 0 0 0 query"

text \<open>
  The only reader of the type code is the \<open>switch\<close> of \<open>expandAll\<close>: \<open>'R'\<close> is a run,
  \<open>'P'\<close>, \<open>'S'\<close> and \<open>'X'\<close> are containers, and every other value (0, and also \<open>'A'\<close>)
  takes the \<open>default\<close> branch, which leaves the accession to the resolver.
\<close>

datatype category = Run | Container | Unrecognized

definition accession_category :: "int \<Rightarrow> category" where
  "accession_category type =
     (if type = type_code (CHR ''R'') then Run
      else if type = type_code (CHR ''P'') \<or> type = type_code (CHR ''S'')
              \<or> type = type_code (CHR ''X'') then Container
      else Unrecognized)"

definition classify :: "string \<Rightarrow> category" where
  "classify query = accession_category (SRA_AccessionType query)"

section \<open>The process, its output streams and its children\<close>

text \<open>
  \<open>exit(n)\<close>, \<open>abort()\<close> and \<open>execve\<close> end the dispatcher; a function that can
  end it returns \<open>halt + 'a\<close>.  \<open>Exec\<close> stands for the replacement of the process
  image in \<open>emptyInvocation\<close> (an \<open>execve\<close> that fails, and then throws, is not
  modelled).  \<open>BadValueAccess\<close> is the fault of asking an absent optional parameter
  value for its \<open>value()\<close>.
\<close>

datatype halt = Exit int | Abort | Exec string "string list" | BadValueAccess

definition EX_UNAVAILABLE :: int where "EX_UNAVAILABLE = 69"
definition EX_TEMPFAIL :: int where "EX_TEMPFAIL = 75"

type_synonym ArgsList = "string list"

text \<open>
  Modelled from the spec: \<open>ParamList\<close> is declared in a header that is not part of the
  sources at hand; a parameter entry is a name paired with an optional value (a string,
  or absent for a flag), kept in insertion order.
\<close>

type_synonym ParamList = "(string \<times> string option) list"

text \<open>A data source is opaque but for its \<open>service()\<close> label.\<close>

record source =
  service :: string

text \<open>
  What the closure handed to \<open>process::run_child\<close> executes in the child: the output
  file entry rewritten to \<open>run + extension\<close> (when there is one), the source's
  environment, then the dry-run check and \<open>exec(toolname, toolpath, *argv0, parameters, run)\<close>.
\<close>

record invocation =
  inv_source :: source
  inv_toolname :: string
  inv_toolpath :: string
  inv_argv0 :: string
  inv_parameters :: ParamList
  inv_run :: string

text \<open>
  \<open>child.wait()\<close>: the child exited with a code, was killed by a signal, or neither
  (the branch the source marks \<^verbatim>\<open>assert(!"reachable")\<close>).
\<close>

datatype wait_status = Exited int | Signaled int | Neither

record child_result =
  pid :: int
  status :: wait_status

text \<open>
  Everything outside the dispatcher: the program name, \<open>access(path, R_OK) == 0\<close>,
  the resolver \<open>data_sources(run)\<close>, and the fate of the \<open>n\<close>-th child spawned
  (counting from 0) given what it was asked to run.
\<close>

record externals =
  argv0 :: string
  readable :: "string \<Rightarrow> bool"
  data_sources :: "string \<Rightarrow> source list"
  run_child :: "nat \<Rightarrow> invocation \<Rightarrow> child_result"

text \<open>
  The observable state: the lines written to \<open>std::cerr\<close> and \<open>std::cout\<close>, the
  \<open>LOG(level)\<close> lines with their level, the runs for which the cloud token variable was
  set, and the children spawned so far, in order.
\<close>

record world =
  cerr :: "string list"
  cout :: "string list"
  logged :: "(nat \<times> string) list"
  ce_token_runs :: "string list"
  children :: "invocation list"

definition print_cerr :: "string \<Rightarrow> world \<Rightarrow> world" where
  "print_cerr line w = w\<lparr>cerr := cerr w @ [line]\<rparr>"

definition LOG :: "nat \<Rightarrow> string \<Rightarrow> world \<Rightarrow> world" where
  "LOG level line w = w\<lparr>logged := logged w @ [(level, line)]\<rparr>"

text \<open>Decimal output of \<open>operator<<\<close> for integers.\<close>

fun dec_nat :: "nat \<Rightarrow> string" where
  "dec_nat n = (if n < 10 then [''0123456789'' ! n]
                else dec_nat (n div 10) @ [''0123456789'' ! (n mod 10)])"

declare dec_nat.simps [simp del]

definition dec_int :: "int \<Rightarrow> string" where
  "dec_int i = (if i < 0 then CHR ''-'' # dec_nat (nat (- i)) else dec_nat (nat i))"

section \<open>\<open>expandAll\<close>\<close>

definition container_message :: "string \<Rightarrow> string" where
  "container_message acc =
     acc @ '' is a container accession. For more information, see https://www.ncbi.nlm.nih.gov/sra/?term='' @ acc"

definition expansion_unavailable_message :: string where
  "expansion_unavailable_message =
     ''Automatic expansion of container accessions is not currently available. See the above link(s) for information about the constituent run data accessions. For example, you can download the accession list and then re-run with --option-file=SraAccList.txt ''"

text \<open>
  The body of \<^verbatim>\<open>if (access(acc.c_str(), R_OK) != 0) { switch (type) ... }\<close>: only a
  container accession that is not a readable path sets \<open>failed\<close> and prints.
\<close>

definition expand_check :: "externals \<Rightarrow> string \<Rightarrow> bool \<Rightarrow> world \<Rightarrow> bool \<times> world" where
  "expand_check ex acc failed w =
     (if \<not> readable ex acc then
        (case accession_category (SRA_AccessionType acc) of
           Run \<Rightarrow> (failed, w)
         | Container \<Rightarrow> (True, print_cerr (container_message acc) w)
         | Unrecognized \<Rightarrow> (failed, w))
      else (failed, w))"

fun expand_loop ::
  "externals \<Rightarrow> ArgsList \<Rightarrow> ArgsList \<Rightarrow> string set \<Rightarrow> bool \<Rightarrow> world \<Rightarrow> ArgsList \<times> bool \<times> world"
where
  "expand_loop ex [] result seen failed w = (result, failed, w)"
| "expand_loop ex (acc # accessions) result seen failed w =
     (if acc \<in> seen then expand_loop ex accessions result seen failed w
      else
        (case expand_check ex acc failed w of
           (failed', w') \<Rightarrow>
             expand_loop ex accessions (result @ [acc]) (insert acc seen) failed' w'))"

definition expandAll :: "externals \<Rightarrow> ArgsList \<Rightarrow> world \<Rightarrow> (halt + ArgsList) \<times> world" where
  "expandAll ex accessions w =
     (case expand_loop ex accessions [] {} False w of
        (result, failed, w') \<Rightarrow>
          if failed then (Inl (Exit EX_UNAVAILABLE), print_cerr expansion_unavailable_message w')
          else (Inr result, w'))"

section \<open>\<open>processSource\<close> and \<open>processRun\<close>\<close>

definition childCode ::
  "externals \<Rightarrow> string \<Rightarrow> string \<Rightarrow> string \<Rightarrow> string \<Rightarrow> ParamList \<Rightarrow> nat option \<Rightarrow> source
   \<Rightarrow> invocation"
where
  "childCode ex run extension toolname toolpath parameters outputFile src =
     \<lparr>inv_source = src, inv_toolname = toolname, inv_toolpath = toolpath,
      inv_argv0 = argv0 ex,
      inv_parameters =
        (case outputFile of
           None \<Rightarrow> parameters
         | Some k \<Rightarrow> parameters[k := (fst (parameters ! k), Some (run @ extension))]),
      inv_run = run\<rparr>"

definition processSource ::
  "externals \<Rightarrow> string \<Rightarrow> string \<Rightarrow> invocation \<Rightarrow> world \<Rightarrow> (halt + bool) \<times> world"
where
  "processSource ex run toolname code w =
     (let result = run_child ex (length (children w)) code;
          w1 = w\<lparr>children := children w @ [code]\<rparr>
      in case status result of
           Exited exit_code \<Rightarrow>
             if exit_code = 0 then (Inr True, LOG 2 (''Successfully processed '' @ run) w1)
             else if exit_code = EX_TEMPFAIL then (Inr False, w1)
             else (Inl (Exit exit_code),
                   print_cerr (toolname @ '' (PID '' @ dec_int (pid result)
                               @ '') quit with error code '' @ dec_int exit_code) w1)
         | Signaled termsig \<Rightarrow>
             (Inl Abort,
              print_cerr (toolname @ '' (PID '' @ dec_int (pid result)
                          @ '') was killed (signal '' @ dec_int termsig @ '')'') w1)
         | Neither \<Rightarrow> (Inl Abort, w1))"

text \<open>
  The loop of \<open>processRun\<close> over the sources; its value is the final \<open>success\<close>.
\<close>

fun try_sources ::
  "externals \<Rightarrow> string \<Rightarrow> string \<Rightarrow> string \<Rightarrow> string \<Rightarrow> ParamList \<Rightarrow> nat option
   \<Rightarrow> source list \<Rightarrow> world \<Rightarrow> (halt + bool) \<times> world"
where
  "try_sources ex run extension toolname toolpath parameters outputFile [] w = (Inr False, w)"
| "try_sources ex run extension toolname toolpath parameters outputFile (src # sources) w =
     (case processSource ex run toolname
             (childCode ex run extension toolname toolpath parameters outputFile src) w of
        (Inl h, w') \<Rightarrow> (Inl h, w')
      | (Inr success, w') \<Rightarrow>
          if success then (Inr True, w')
          else try_sources ex run extension toolname toolpath parameters outputFile sources
                 (LOG 1 (''failed to get data for '' @ run @ '' from '' @ service src) w'))"

definition no_source_message :: "string \<Rightarrow> string" where
  "no_source_message run =
     ''Could not get any data for '' @ run @ '', there is no accessible source.''"

definition exhausted_messages :: "string \<Rightarrow> source list \<Rightarrow> string list" where
  "exhausted_messages run sources =
     [''Could not get any data for '' @ run @ '', tried to get data from:'']
     @ map (\<lambda>i. CHR 0x09 # service i) sources
     @ [''This may be temporary, you should retry later.'']"

definition processRun ::
  "externals \<Rightarrow> string \<Rightarrow> string \<Rightarrow> string \<Rightarrow> string \<Rightarrow> ParamList \<Rightarrow> nat option
   \<Rightarrow> world \<Rightarrow> (halt + unit) \<times> world"
where
  "processRun ex run extension toolname toolpath parameters outputFile w =
     (let sources = data_sources ex run in
      if sources = [] then (Inr (), print_cerr (no_source_message run) w)
      else
        (case try_sources ex run extension toolname toolpath parameters outputFile sources
                (w\<lparr>ce_token_runs := ce_token_runs w @ [run]\<rparr>) of
           (Inl h, w') \<Rightarrow> (Inl h, w')
         | (Inr success, w') \<Rightarrow>
             if \<not> success
             then (Inl (Exit EX_TEMPFAIL),
                   w'\<lparr>cerr := cerr w' @ exhausted_messages run sources\<rparr>)
             else (Inr (), w')))"

section \<open>\<open>processAccessions\<close>\<close>

text \<open>
  The scan for the unsafe output file parameter.  \<open>&&\<close> evaluates \<open>i->second.value()\<close>
  only for an entry whose name matches; the scan stops (\<open>break\<close>) at the first entry
  that matches with a value other than \<open>/dev/null\<close>.  The iterator is the index of
  the entry, \<open>None\<close> standing for \<open>parameters.end()\<close>.
\<close>

fun find_outputFile :: "string \<Rightarrow> ParamList \<Rightarrow> nat \<Rightarrow> halt + nat option" where
  "find_outputFile name [] k = Inr None"
| "find_outputFile name (i # parameters) k =
     (if fst i = name then
        (case snd i of
           None \<Rightarrow> Inl BadValueAccess
         | Some v \<Rightarrow> if v \<noteq> ''/dev/null'' then Inr (Some k)
                     else find_outputFile name parameters (k + 1))
      else find_outputFile name parameters (k + 1))"

definition select_outputFile :: "ArgsList \<Rightarrow> string option \<Rightarrow> ParamList \<Rightarrow> halt + nat option" where
  "select_outputFile runs unsafeOutputFileParamName parameters =
     (case unsafeOutputFileParamName of
        None \<Rightarrow> Inr None
      | Some name \<Rightarrow>
          if length runs > 1 then find_outputFile name parameters 0 else Inr None)"

definition print_unsafe_output_file_message :: "ArgsList \<Rightarrow> string \<Rightarrow> string \<Rightarrow> world \<Rightarrow> world" where
  "print_unsafe_output_file_message runs toolname extension w =
     w\<lparr>cout := cout w
        @ [''You are trying to process '' @ dec_nat (length runs)
             @ '' runs to a single output file, but '' @ toolname,
           ''is not capable of producing valid output from more than one run into a single'',
           ''file. The following output files will be created instead:'']
        @ map (\<lambda>run. CHR 0x09 # run @ extension) runs\<rparr>"

fun process_runs ::
  "externals \<Rightarrow> ArgsList \<Rightarrow> string \<Rightarrow> string \<Rightarrow> string \<Rightarrow> ParamList \<Rightarrow> nat option
   \<Rightarrow> world \<Rightarrow> (halt + unit) \<times> world"
where
  "process_runs ex [] extension toolname toolpath parameters outputFile w = (Inr (), w)"
| "process_runs ex (run # runs) extension toolname toolpath parameters outputFile w =
     (case processRun ex run extension toolname toolpath parameters outputFile
             (LOG 3 (''Processing '' @ run @ '' ...'') w) of
        (Inl h, w') \<Rightarrow> (Inl h, w')
      | (Inr u, w') \<Rightarrow>
          process_runs ex runs extension toolname toolpath parameters outputFile w')"

definition processAccessions ::
  "externals \<Rightarrow> string \<Rightarrow> string \<Rightarrow> string option \<Rightarrow> string \<Rightarrow> ParamList \<Rightarrow> ArgsList
   \<Rightarrow> world \<Rightarrow> halt \<times> world"
where
  "processAccessions ex toolname toolpath unsafeOutputFileParamName extension parameters
     accessions w =
     (if accessions = [] then (Exec toolpath [argv0 ex], w)
      else
        (case expandAll ex accessions w of
           (Inl h, w1) \<Rightarrow> (h, w1)
         | (Inr runs, w1) \<Rightarrow>
             (case select_outputFile runs unsafeOutputFileParamName parameters of
                Inl h \<Rightarrow> (h, w1)
              | Inr outputFile \<Rightarrow>
                  (case process_runs ex runs extension toolname toolpath parameters outputFile
                          (if outputFile \<noteq> None
                           then print_unsafe_output_file_message runs toolname extension w1
                           else w1) of
                     (Inl h, w2) \<Rightarrow> (h, w2)
                   | (Inr u, w2) \<Rightarrow>
                       (Exit 0, LOG 1 ''All runs were processed successfully'' w2)))))"

section \<open>Reference notions for the statements\<close>

text \<open>
  The list of first occurrences, written without any \<open>seen\<close> set: the head, then the
  first occurrences of the rest with the head struck out.
\<close>

fun first_occurrences :: "'a list \<Rightarrow> 'a list" where
  "first_occurrences [] = []"
| "first_occurrences (x # xs) = x # filter (\<lambda>y. y \<noteq> x) (first_occurrences xs)"

text \<open>
  The accessions \<open>expandAll\<close> reports: first occurrences that are not readable paths and
  that the classifier takes for containers.
\<close>

definition reported_containers :: "externals \<Rightarrow> ArgsList \<Rightarrow> ArgsList" where
  "reported_containers ex accessions =
     filter (\<lambda>acc. \<not> readable ex acc \<and> classify acc = Container) (first_occurrences accessions)"

text \<open>
  \<open>transient_prefix ex code pre w\<close>: starting from \<open>w\<close>, the children spawned for the
  sources \<open>pre\<close>, one after the other, all exit with \<open>EX_TEMPFAIL\<close>.
\<close>

definition transient_prefix :: "externals \<Rightarrow> (source \<Rightarrow> invocation) \<Rightarrow> source list \<Rightarrow> world \<Rightarrow> bool" where
  "transient_prefix ex code pre w \<longleftrightarrow>
     (\<forall>i < length pre.
        status (run_child ex (length (children w) + i) (code (pre ! i))) = Exited EX_TEMPFAIL)"

definition failed_log :: "string \<Rightarrow> source \<Rightarrow> nat \<times> string" where
  "failed_log run src = (1, ''failed to get data for '' @ run @ '' from '' @ service src)"

section \<open>Example inputs\<close>

definition world0 :: world where
  "world0 = \<lparr>cerr = [], cout = [], logged = [], ce_token_runs = [], children = []\<rparr>"

text \<open>
  A resolver that knows two sources \<open>A\<close>, \<open>B\<close> for most runs; children for \<open>A\<close>
  report a temporary failure, children for \<open>B\<close> succeed except on run \<open>SRR000002\<close>,
  children for \<open>C\<close> exit with code 3 and children for \<open>D\<close> are killed by signal 9.
  The only readable path is \<open>SRP000001\<close>.
\<close>

definition demo_status :: "invocation \<Rightarrow> wait_status" where
  "demo_status code =
     (if service (inv_source code) = ''A'' then Exited 75
      else if service (inv_source code) = ''B''
        then (if inv_run code = ''SRR000002'' then Exited 75 else Exited 0)
      else if service (inv_source code) = ''C'' then Exited 3
      else Signaled 9)"

definition demo :: externals where
  "demo =
     \<lparr>argv0 = ''fastq-dump'',
      readable = (\<lambda>path. path = ''SRP000001''),
      data_sources =
        (\<lambda>run. if run = ''SRR000003''
                then [\<lparr>service = ''A''\<rparr>, \<lparr>service = ''C''\<rparr>, \<lparr>service = ''B''\<rparr>]
              else if run = ''SRR000004''
                then [\<lparr>service = ''A''\<rparr>, \<lparr>service = ''D''\<rparr>, \<lparr>service = ''B''\<rparr>]
              else [\<lparr>service = ''A''\<rparr>, \<lparr>service = ''B''\<rparr>]),
      run_child = (\<lambda>n code. \<lparr>pid = 4242 + int n, status = demo_status code\<rparr>)\<rparr>"

text \<open>A resolver with no source for any run but \<open>SRR000002\<close>; every child succeeds.\<close>

definition ex_second_run :: externals where
  "ex_second_run =
     \<lparr>argv0 = ''fastq-dump'',
      readable = (\<lambda>path. False),
      data_sources = (\<lambda>run. if run = ''SRR000002'' then [\<lparr>service = ''ncbi''\<rparr>] else []),
      run_child = (\<lambda>n code. \<lparr>pid = 4242, status = Exited 0\<rparr>)\<rparr>"

section \<open>Lemmas about the classifier\<close>

lemmas classifier_defs = classify_def SRA_AccessionType_def accession_category_def
  accession_done_def type_code_def is_dec_digit_def

lemma digit_not_dot: "is_dec_digit d \<Longrightarrow> d \<noteq> CHR ''.''"
  by (auto simp: is_dec_digit_def)

lemma scan_digit_run:
  "\<forall>d\<in>set ds. is_dec_digit d \<Longrightarrow>
   accession_scan 3 t n (ds @ rest) = accession_scan 3 t (n + int (length ds)) rest"
  by (induction ds arbitrary: n) (auto simp: digit_not_dot ac_simps)

lemma scan_digits_end:
  "\<forall>d\<in>set ds. is_dec_digit d \<Longrightarrow> tail = [] \<or> (\<exists>rest. tail = CHR ''.'' # rest) \<Longrightarrow>
   accession_scan 3 t n (ds @ tail) = accession_done t (n + int (length ds))"
  by (auto simp: scan_digit_run)

lemma scan_digits_bad:
  "\<forall>d\<in>set ds. is_dec_digit d \<Longrightarrow> \<not> is_dec_digit x \<Longrightarrow> x \<noteq> CHR ''.'' \<Longrightarrow>
   accession_scan 3 t n (ds @ x # q) = 0"
  by (simp add: scan_digit_run)

lemma scan3_range: "accession_scan 3 t n q = 0 \<or> accession_scan 3 t n q = t"
  by (induction q arbitrary: n) (auto simp: accession_done_def)

lemma prefix_scan:
  "c1 \<in> set ''DES'' \<Longrightarrow> c3 \<in> set ''APRSX'' \<Longrightarrow>
   SRA_AccessionType (c1 # CHR ''R'' # c3 # q) = accession_scan 3 (type_code c3) 0 q"
  by (auto simp: SRA_AccessionType_def)

lemma bad_first: "c1 \<notin> set ''DES'' \<Longrightarrow> SRA_AccessionType (c1 # q) = 0"
  by (auto simp: SRA_AccessionType_def)
lemma bad_second: "c2 \<noteq> CHR ''R'' \<Longrightarrow> SRA_AccessionType (c1 # c2 # q) = 0"
  by (auto simp: SRA_AccessionType_def)
lemma bad_third: "c3 \<notin> set ''APRSX'' \<Longrightarrow> SRA_AccessionType (c1 # c2 # c3 # q) = 0"
  by (auto simp: SRA_AccessionType_def)
lemma bad_digit: "\<forall>d\<in>set ds. is_dec_digit d \<Longrightarrow> \<not> is_dec_digit x \<Longrightarrow> x \<noteq> CHR ''.'' \<Longrightarrow>
   SRA_AccessionType (c1 # c2 # c3 # ds @ x # q) = 0"
  by (auto simp: SRA_AccessionType_def scan_digits_bad)

lemma third_range: "SRA_AccessionType (c1 # c2 # c3 # q) = 0 \<or> SRA_AccessionType (c1 # c2 # c3 # q) = type_code c3"
  using scan3_range[of "type_code c3" 0 q]
  by (auto simp: SRA_AccessionType_def)

lemma well_formed_type:
  assumes "c1 \<in> set ''DES''" "c3 \<in> set ''APRSX''" "\<forall>d\<in>set ds. is_dec_digit d"
    "tail = [] \<or> (\<exists>rest. tail = CHR ''.'' # rest)"
  shows "SRA_AccessionType (c1 # CHR ''R'' # c3 # ds @ tail) =
         (if 6 \<le> length ds \<and> length ds \<le> 9 then type_code c3 else 0)"
  using assms(3,4) by (simp add: prefix_scan[OF assms(1,2)] scan_digits_end accession_done_def)

lemma category_of_code:
  "c3 \<in> set ''APRSX'' \<Longrightarrow> accession_category (type_code c3) =
     (if c3 = CHR ''R'' then Run else if c3 \<in> set ''PSX'' then Container else Unrecognized)"
  by (auto simp: accession_category_def type_code_def)

lemma category_0: "accession_category 0 = Unrecognized"
  by (simp add: accession_category_def type_code_def)

lemma classify_SRR000001: "classify ''SRR000001'' = Run"
  by (simp add: classify_def SRA_AccessionType_def accession_category_def accession_done_def
      type_code_def is_dec_digit_def)

lemma classify_SRR000002: "classify ''SRR000002'' = Run"
  by (simp add: classify_def SRA_AccessionType_def accession_category_def accession_done_def
      type_code_def is_dec_digit_def)

lemma classify_SRP000001: "classify ''SRP000001'' = Container"
  by (simp add: classifier_defs)

section \<open>Lemmas about \<open>expandAll\<close>\<close>

lemma filter_first_occurrences:
  "filter P (first_occurrences xs) = first_occurrences (filter P xs)"
proof (induction xs)
  case Nil
  show ?case by simp
next
  case (Cons x xs)
  show ?case
  proof (cases "P x")
    case True
    have "filter P (first_occurrences (x # xs))
            = x # filter (\<lambda>y. y \<noteq> x) (filter P (first_occurrences xs))"
      using True by (simp add: conj_commute)
    also have "\<dots> = first_occurrences (filter P (x # xs))"
      using True by (simp only: Cons.IH) simp
    finally show ?thesis .
  next
    case False
    have "(\<lambda>y. y \<noteq> x \<and> P y) = P" using False by auto
    then have "filter P (first_occurrences (x # xs)) = filter P (first_occurrences xs)"
      using False by simp
    then show ?thesis using False Cons.IH by simp
  qed
qed

lemma set_first_occurrences [simp]: "set (first_occurrences xs) = set xs"
  by (induction xs) auto

lemma distinct_first_occurrences [simp]: "distinct (first_occurrences xs)"
  by (induction xs) auto

lemma first_occurrences_distinct: "distinct xs \<Longrightarrow> first_occurrences xs = xs"
  by (induction xs) (auto simp: filter_id_conv)

lemma first_occurrences_idem [simp]: "first_occurrences (first_occurrences xs) = first_occurrences xs"
  by (simp add: first_occurrences_distinct)

lemma expand_check_eq:
  "expand_check ex acc failed w =
     (if \<not> readable ex acc \<and> classify acc = Container
      then (True, w\<lparr>cerr := cerr w @ [container_message acc]\<rparr>) else (failed, w))"
  by (simp add: expand_check_def classify_def print_cerr_def split: category.splits)

lemma expand_loop_eq:
  "expand_loop ex accessions result seen failed w =
     (let new = first_occurrences (filter (\<lambda>acc. acc \<notin> seen) accessions);
          bad = filter (\<lambda>acc. \<not> readable ex acc \<and> classify acc = Container) new
      in (result @ new, failed \<or> bad \<noteq> [], w\<lparr>cerr := cerr w @ map container_message bad\<rparr>))"
proof (induction accessions arbitrary: result seen failed w)
  case Nil
  show ?case by simp
next
  case (Cons acc accessions)
  have shrink: "filter (\<lambda>y. y \<noteq> acc) (first_occurrences (filter (\<lambda>a. a \<notin> seen) accessions))
      = first_occurrences (filter (\<lambda>a. a \<notin> insert acc seen) accessions)"
    by (simp add: filter_first_occurrences conj_commute)
  show ?case
  proof (cases "acc \<in> seen")
    case True
    then show ?thesis by (simp add: Cons.IH)
  next
    case False
    then show ?thesis
      by (simp add: Cons.IH expand_check_eq shrink Let_def)
  qed
qed

lemma expandAll_eq:
  "expandAll ex accessions w =
     (if reported_containers ex accessions = [] then (Inr (first_occurrences accessions), w)
      else (Inl (Exit EX_UNAVAILABLE),
            w\<lparr>cerr := cerr w @ map container_message (reported_containers ex accessions)
                        @ [expansion_unavailable_message]\<rparr>))"
  by (simp add: expandAll_def expand_loop_eq reported_containers_def Let_def print_cerr_def)

lemma set_reported_containers:
  "set (reported_containers ex accessions) =
     {acc \<in> set accessions. \<not> readable ex acc \<and> classify acc = Container}"
  by (auto simp: reported_containers_def)

lemma expandAll_Nil: "expandAll ex [] w = (Inr [], w)"
  by (simp add: expandAll_def)

lemma readable_demo: "readable demo path \<longleftrightarrow> path = ''SRP000001''"
  by (simp add: demo_def)

section \<open>Lemmas about the children\<close>

lemma processSource_children:
  "children (snd (processSource ex run toolname code w)) = children w @ [code]"
  by (simp add: processSource_def Let_def LOG_def print_cerr_def split: wait_status.splits)

lemma processSource_transient:
  "status (run_child ex (length (children w)) code) = Exited EX_TEMPFAIL \<Longrightarrow>
   processSource ex run toolname code w = (Inr False, w\<lparr>children := children w @ [code]\<rparr>)"
  by (simp add: processSource_def Let_def EX_TEMPFAIL_def)

lemma processSource_success:
  "status (run_child ex (length (children w)) code) = Exited 0 \<Longrightarrow>
   processSource ex run toolname code w =
     (Inr True, LOG 2 (''Successfully processed '' @ run) (w\<lparr>children := children w @ [code]\<rparr>))"
  by (simp add: processSource_def Let_def)

lemma processSource_tool_failure:
  "status (run_child ex (length (children w)) code) = Exited c \<Longrightarrow> c \<noteq> 0 \<Longrightarrow> c \<noteq> EX_TEMPFAIL \<Longrightarrow>
   processSource ex run toolname code w =
     (Inl (Exit c),
      print_cerr (toolname @ '' (PID '' @ dec_int (pid (run_child ex (length (children w)) code))
                   @ '') quit with error code '' @ dec_int c)
        (w\<lparr>children := children w @ [code]\<rparr>))"
  by (simp add: processSource_def Let_def)

lemma processSource_killed:
  "status (run_child ex (length (children w)) code) = Signaled s \<Longrightarrow>
   processSource ex run toolname code w =
     (Inl Abort,
      print_cerr (toolname @ '' (PID '' @ dec_int (pid (run_child ex (length (children w)) code))
                   @ '') was killed (signal '' @ dec_int s @ '')'')
        (w\<lparr>children := children w @ [code]\<rparr>))"
  by (simp add: processSource_def Let_def)

lemma try_sources_transient_prefix:
  "transient_prefix ex (childCode ex run extension toolname toolpath parameters outputFile) pre w \<Longrightarrow>
   try_sources ex run extension toolname toolpath parameters outputFile (pre @ rest) w =
   try_sources ex run extension toolname toolpath parameters outputFile rest
     (w\<lparr>logged := logged w @ map (failed_log run) pre,
        children := children w
          @ map (childCode ex run extension toolname toolpath parameters outputFile) pre\<rparr>)"
proof (induction pre arbitrary: w)
  case Nil
  show ?case by simp
next
  case (Cons src pre)
  let ?code = "childCode ex run extension toolname toolpath parameters outputFile"
  let ?w1 = "LOG 1 (''failed to get data for '' @ run @ '' from '' @ service src)
               (w\<lparr>children := children w @ [?code src]\<rparr>)"
  from Cons.prems have first: "status (run_child ex (length (children w)) (?code src)) = Exited EX_TEMPFAIL"
    by (auto simp: transient_prefix_def)
  have "transient_prefix ex ?code pre ?w1"
    unfolding transient_prefix_def
  proof (intro allI impI)
    fix i assume "i < length pre"
    then have "Suc i < length (src # pre)" by simp
    with Cons.prems have "status (run_child ex (length (children w) + Suc i) (?code ((src # pre) ! Suc i))) = Exited EX_TEMPFAIL"
      unfolding transient_prefix_def by blast
    then show "status (run_child ex (length (children ?w1) + i) (?code (pre ! i))) = Exited EX_TEMPFAIL"
      by (simp add: LOG_def)
  qed
  from Cons.IH[OF this] show ?case
    by (simp add: processSource_transient[OF first] LOG_def failed_log_def)
qed

lemma inv_source_childCode:
  "map inv_source (map (childCode ex run extension toolname toolpath parameters outputFile) srcs) = srcs"
  by (induction srcs) (auto simp: childCode_def)

lemma processRun_after_prefix:
  assumes "data_sources ex run = pre @ rest"
    and "pre @ rest \<noteq> []"
    and "transient_prefix ex (childCode ex run extension toolname toolpath parameters outputFile) pre w"
  shows "processRun ex run extension toolname toolpath parameters outputFile w =
     (case try_sources ex run extension toolname toolpath parameters outputFile rest
             (w\<lparr>ce_token_runs := ce_token_runs w @ [run],
                logged := logged w @ map (failed_log run) pre,
                children := children w
                  @ map (childCode ex run extension toolname toolpath parameters outputFile) pre\<rparr>) of
        (Inl h, w') \<Rightarrow> (Inl h, w')
      | (Inr success, w') \<Rightarrow>
          if \<not> success
          then (Inl (Exit EX_TEMPFAIL), w'\<lparr>cerr := cerr w' @ exhausted_messages run (pre @ rest)\<rparr>)
          else (Inr (), w'))"
proof -
  let ?code = "childCode ex run extension toolname toolpath parameters outputFile"
  let ?w0 = "w\<lparr>ce_token_runs := ce_token_runs w @ [run]\<rparr>"
  from assms(3) have "transient_prefix ex ?code pre ?w0"
    by (simp add: transient_prefix_def)
  from try_sources_transient_prefix[OF this, of rest]
  have "try_sources ex run extension toolname toolpath parameters outputFile (pre @ rest) ?w0 =
        try_sources ex run extension toolname toolpath parameters outputFile rest
          (w\<lparr>ce_token_runs := ce_token_runs w @ [run],
             logged := logged w @ map (failed_log run) pre,
             children := children w @ map ?code pre\<rparr>)"
    by simp
  with assms(1,2) show ?thesis
    by (simp add: processRun_def Let_def)
qed

lemma status_demo:
  "status (run_child demo n (childCode demo run extension toolname toolpath parameters outputFile src))
     = (if service src = ''A'' then Exited 75
        else if service src = ''B'' then (if run = ''SRR000002'' then Exited 75 else Exited 0)
        else if service src = ''C'' then Exited 3
        else Signaled 9)"
  by (simp add: demo_def demo_status_def childCode_def)

lemma inv_source_code [simp]:
  "inv_source (childCode ex run extension toolname toolpath parameters outputFile src) = src"
  by (simp add: childCode_def)

lemma pid_demo: "pid (run_child demo n code) = 4242 + int n"
  by (simp add: demo_def)

lemma data_sources_demo:
  "data_sources demo ''SRR000001'' = [\<lparr>service = ''A''\<rparr>, \<lparr>service = ''B''\<rparr>]"
  "data_sources demo ''SRR000002'' = [\<lparr>service = ''A''\<rparr>, \<lparr>service = ''B''\<rparr>]"
  "data_sources demo ''SRR000003'' = [\<lparr>service = ''A''\<rparr>, \<lparr>service = ''C''\<rparr>, \<lparr>service = ''B''\<rparr>]"
  "data_sources demo ''SRR000004'' = [\<lparr>service = ''A''\<rparr>, \<lparr>service = ''D''\<rparr>, \<lparr>service = ''B''\<rparr>]"
  by (simp_all add: demo_def)

section \<open>Lemmas about the output file scan\<close>

lemma find_outputFile_safe:
  "\<forall>i\<in>set parameters. fst i = name \<longrightarrow> snd i \<noteq> None \<Longrightarrow>
   find_outputFile name parameters k \<noteq> Inl BadValueAccess"
  by (induction parameters arbitrary: k) (auto split: option.splits)

lemma find_outputFile_fault:
  "\<forall>i\<in>set pre. fst i = name \<longrightarrow> snd i = Some ''/dev/null'' \<Longrightarrow>
   find_outputFile name (pre @ (name, None) # post) k = Inl BadValueAccess"
  by (induction pre arbitrary: k) (auto split: option.splits)

lemma find_outputFile_in_range:
  "find_outputFile name parameters k = Inr (Some j) \<Longrightarrow>
   k \<le> j \<and> j < k + length parameters \<and> fst (parameters ! (j - k)) = name
   \<and> (\<exists>v. snd (parameters ! (j - k)) = Some v \<and> v \<noteq> ''/dev/null'')"
proof (induction parameters arbitrary: k)
  case Nil
  then show ?case by simp
next
  case (Cons i parameters)
  show ?case
  proof (cases "fst i = name \<and> (\<exists>v. snd i = Some v \<and> v \<noteq> ''/dev/null'')")
    case True
    with Cons.prems show ?thesis by (auto split: option.splits if_splits)
  next
    case False
    with Cons.prems have "find_outputFile name parameters (k + 1) = Inr (Some j)"
      by (auto split: option.splits if_splits)
    from Cons.IH[OF this] show ?thesis
      by (auto simp: nth_Cons' Suc_diff_le)
  qed
qed

section \<open>The claims\<close>

text \<open>
  Claim C1.  \<open>processSource\<close> spawns one child and classifies its termination: exit
  code 0 is success (\<open>true\<close>); \<open>EX_TEMPFAIL\<close> is a transient failure (\<open>false\<close>,
  nothing printed, the next source is tried); any other exit code \<open>c\<close> prints the tool
  name, the child's pid and \<open>c\<close> and ends the dispatcher by \<open>exit(c)\<close>; a signal prints
  the tool name, the pid and the signal number and ends it by \<open>abort()\<close>.  In
  \<open>processRun\<close> a fatal child at any position of the source list, after children that
  reported transient failures, ends the run with that outcome and no source after it is
  tried.
\<close>

theorem child_termination_classified:
  "(status (run_child ex (length (children w)) code) = Exited 0 \<longrightarrow>
      fst (processSource ex run toolname code w) = Inr True
    \<and> cerr (snd (processSource ex run toolname code w)) = cerr w)
   \<and> (status (run_child ex (length (children w)) code) = Exited EX_TEMPFAIL \<longrightarrow>
      fst (processSource ex run toolname code w) = Inr False
    \<and> cerr (snd (processSource ex run toolname code w)) = cerr w)
   \<and> (status (run_child ex (length (children w)) code) = Exited c \<and> c \<noteq> 0 \<and> c \<noteq> EX_TEMPFAIL \<longrightarrow>
      fst (processSource ex run toolname code w) = Inl (Exit c)
    \<and> cerr (snd (processSource ex run toolname code w)) =
        cerr w @ [toolname @ '' (PID '' @ dec_int (pid (run_child ex (length (children w)) code))
                   @ '') quit with error code '' @ dec_int c])
   \<and> (status (run_child ex (length (children w)) code) = Signaled s \<longrightarrow>
      fst (processSource ex run toolname code w) = Inl Abort
    \<and> cerr (snd (processSource ex run toolname code w)) =
        cerr w @ [toolname @ '' (PID '' @ dec_int (pid (run_child ex (length (children w)) code))
                   @ '') was killed (signal '' @ dec_int s @ '')''])
   \<and> children (snd (processSource ex run toolname code w)) = children w @ [code]
   \<and> (data_sources ex run = pre @ src # post
      \<and> transient_prefix ex (childCode ex run extension toolname toolpath parameters outputFile) pre w'
      \<and> (status (run_child ex (length (children w') + length pre)
                   (childCode ex run extension toolname toolpath parameters outputFile src)) = Signaled s
          \<and> h = Abort
        \<or> status (run_child ex (length (children w') + length pre)
                   (childCode ex run extension toolname toolpath parameters outputFile src)) = Exited c
          \<and> c \<noteq> 0 \<and> c \<noteq> EX_TEMPFAIL \<and> h = Exit c) \<longrightarrow>
      fst (processRun ex run extension toolname toolpath parameters outputFile w') = Inl h
    \<and> children (snd (processRun ex run extension toolname toolpath parameters outputFile w')) =
        children w'
          @ map (childCode ex run extension toolname toolpath parameters outputFile) (pre @ [src]))"
proof -
  let ?r = "run_child ex (length (children w)) code"
  let ?code = "childCode ex run extension toolname toolpath parameters outputFile"
  have A: "status ?r = Exited 0 \<longrightarrow>
      fst (processSource ex run toolname code w) = Inr True
    \<and> cerr (snd (processSource ex run toolname code w)) = cerr w"
    by (simp add: processSource_success LOG_def)
  have B: "status ?r = Exited EX_TEMPFAIL \<longrightarrow>
      fst (processSource ex run toolname code w) = Inr False
    \<and> cerr (snd (processSource ex run toolname code w)) = cerr w"
    by (simp add: processSource_transient)
  have C: "status ?r = Exited c \<and> c \<noteq> 0 \<and> c \<noteq> EX_TEMPFAIL \<longrightarrow>
      fst (processSource ex run toolname code w) = Inl (Exit c)
    \<and> cerr (snd (processSource ex run toolname code w)) =
        cerr w @ [toolname @ '' (PID '' @ dec_int (pid ?r)
                   @ '') quit with error code '' @ dec_int c]"
    by (simp add: processSource_tool_failure print_cerr_def)
  have D: "status ?r = Signaled s \<longrightarrow>
      fst (processSource ex run toolname code w) = Inl Abort
    \<and> cerr (snd (processSource ex run toolname code w)) =
        cerr w @ [toolname @ '' (PID '' @ dec_int (pid ?r)
                   @ '') was killed (signal '' @ dec_int s @ '')'']"
    by (simp add: processSource_killed print_cerr_def)
  have E: "children (snd (processSource ex run toolname code w)) = children w @ [code]"
    by (rule processSource_children)
  have F: "data_sources ex run = pre @ src # post
      \<and> transient_prefix ex ?code pre w'
      \<and> (status (run_child ex (length (children w') + length pre) (?code src)) = Signaled s
          \<and> h = Abort
        \<or> status (run_child ex (length (children w') + length pre) (?code src)) = Exited c
          \<and> c \<noteq> 0 \<and> c \<noteq> EX_TEMPFAIL \<and> h = Exit c) \<longrightarrow>
      fst (processRun ex run extension toolname toolpath parameters outputFile w') = Inl h
    \<and> children (snd (processRun ex run extension toolname toolpath parameters outputFile w')) =
        children w' @ map ?code (pre @ [src])"
  proof (intro impI, elim conjE)
    assume ds: "data_sources ex run = pre @ src # post"
      and tp: "transient_prefix ex ?code pre w'"
      and fatal: "status (run_child ex (length (children w') + length pre) (?code src)) = Signaled s
          \<and> h = Abort
        \<or> status (run_child ex (length (children w') + length pre) (?code src)) = Exited c
          \<and> c \<noteq> 0 \<and> c \<noteq> EX_TEMPFAIL \<and> h = Exit c"
    let ?w = "w'\<lparr>ce_token_runs := ce_token_runs w' @ [run],
                logged := logged w' @ map (failed_log run) pre,
                children := children w' @ map ?code pre\<rparr>"
    have len: "length (children ?w) = length (children w') + length pre" by simp
    from fatal show "fst (processRun ex run extension toolname toolpath parameters outputFile w') = Inl h
    \<and> children (snd (processRun ex run extension toolname toolpath parameters outputFile w')) =
        children w' @ map ?code (pre @ [src])"
    proof
      assume k: "status (run_child ex (length (children w') + length pre) (?code src)) = Signaled s \<and> h = Abort"
      then have "status (run_child ex (length (children ?w)) (?code src)) = Signaled s"
        by (simp only: len)
      from processSource_killed[OF this, of run toolname] k show ?thesis
        by (simp add: processRun_after_prefix[OF ds _ tp] print_cerr_def)
    next
      assume k: "status (run_child ex (length (children w') + length pre) (?code src)) = Exited c
          \<and> c \<noteq> 0 \<and> c \<noteq> EX_TEMPFAIL \<and> h = Exit c"
      then have "status (run_child ex (length (children ?w)) (?code src)) = Exited c"
        by (simp only: len)
      from processSource_tool_failure[OF this, of run toolname] k show ?thesis
        by (simp add: processRun_after_prefix[OF ds _ tp] print_cerr_def)
    qed
  qed
  from A B C D E F show ?thesis by blast
qed

text \<open>
  Claim C1 on the example resolver: children for \<open>B\<close>, \<open>A\<close>, \<open>C\<close> and \<open>D\<close>, and the
  runs \<open>SRR000003\<close> (sources \<open>A\<close>, \<open>C\<close>, \<open>B\<close>) and \<open>SRR000004\<close> (sources \<open>A\<close>,
  \<open>D\<close>, \<open>B\<close>).
\<close>

theorem child_termination_classified_witness:
  "fst (processSource demo ''SRR000001'' ''fastq-dump''
          (childCode demo ''SRR000001'' ''.fastq'' ''fastq-dump'' ''/usr/bin/fastq-dump-orig''
             [] None \<lparr>service = ''B''\<rparr>) world0) = Inr True
   \<and> fst (processSource demo ''SRR000001'' ''fastq-dump''
          (childCode demo ''SRR000001'' ''.fastq'' ''fastq-dump'' ''/usr/bin/fastq-dump-orig''
             [] None \<lparr>service = ''A''\<rparr>) world0) = Inr False
   \<and> fst (processSource demo ''SRR000001'' ''fastq-dump''
          (childCode demo ''SRR000001'' ''.fastq'' ''fastq-dump'' ''/usr/bin/fastq-dump-orig''
             [] None \<lparr>service = ''C''\<rparr>) world0) = Inl (Exit 3)
   \<and> cerr (snd (processSource demo ''SRR000001'' ''fastq-dump''
          (childCode demo ''SRR000001'' ''.fastq'' ''fastq-dump'' ''/usr/bin/fastq-dump-orig''
             [] None \<lparr>service = ''C''\<rparr>) world0))
       = [''fastq-dump (PID 4242) quit with error code 3'']
   \<and> fst (processSource demo ''SRR000001'' ''fastq-dump''
          (childCode demo ''SRR000001'' ''.fastq'' ''fastq-dump'' ''/usr/bin/fastq-dump-orig''
             [] None \<lparr>service = ''D''\<rparr>) world0) = Inl Abort
   \<and> cerr (snd (processSource demo ''SRR000001'' ''fastq-dump''
          (childCode demo ''SRR000001'' ''.fastq'' ''fastq-dump'' ''/usr/bin/fastq-dump-orig''
             [] None \<lparr>service = ''D''\<rparr>) world0))
       = [''fastq-dump (PID 4242) was killed (signal 9)'']
   \<and> fst (processRun demo ''SRR000003'' ''.fastq'' ''fastq-dump'' ''/usr/bin/fastq-dump-orig''
          [] None world0) = Inl (Exit 3)
   \<and> map inv_source (children (snd (processRun demo ''SRR000003'' ''.fastq'' ''fastq-dump''
          ''/usr/bin/fastq-dump-orig'' [] None world0)))
       = [\<lparr>service = ''A''\<rparr>, \<lparr>service = ''C''\<rparr>]
   \<and> fst (processRun demo ''SRR000004'' ''.fastq'' ''fastq-dump'' ''/usr/bin/fastq-dump-orig''
          [] None world0) = Inl Abort"
  using child_termination_classified[where ex = demo and run = "''SRR000001''"
          and toolname = "''fastq-dump''" and w = world0 and c = 3 and s = 9
          and code = "childCode demo ''SRR000001'' ''.fastq'' ''fastq-dump''
                        ''/usr/bin/fastq-dump-orig'' [] None \<lparr>service = ''B''\<rparr>"
          and pre = "[]" and src = "\<lparr>service = ''B''\<rparr>" and post = "[]"
          and extension = "''.fastq''" and toolpath = "''/usr/bin/fastq-dump-orig''"
          and parameters = "[]" and outputFile = None and w' = world0 and h = Abort]
        child_termination_classified[where ex = demo and run = "''SRR000001''"
          and toolname = "''fastq-dump''" and w = world0 and c = 3 and s = 9
          and code = "childCode demo ''SRR000001'' ''.fastq'' ''fastq-dump''
                        ''/usr/bin/fastq-dump-orig'' [] None \<lparr>service = ''A''\<rparr>"
          and pre = "[]" and src = "\<lparr>service = ''B''\<rparr>" and post = "[]"
          and extension = "''.fastq''" and toolpath = "''/usr/bin/fastq-dump-orig''"
          and parameters = "[]" and outputFile = None and w' = world0 and h = Abort]
        child_termination_classified[where ex = demo and run = "''SRR000001''"
          and toolname = "''fastq-dump''" and w = world0 and c = 3 and s = 9
          and code = "childCode demo ''SRR000001'' ''.fastq'' ''fastq-dump''
                        ''/usr/bin/fastq-dump-orig'' [] None \<lparr>service = ''C''\<rparr>"
          and pre = "[]" and src = "\<lparr>service = ''B''\<rparr>" and post = "[]"
          and extension = "''.fastq''" and toolpath = "''/usr/bin/fastq-dump-orig''"
          and parameters = "[]" and outputFile = None and w' = world0 and h = Abort]
        child_termination_classified[where ex = demo and run = "''SRR000001''"
          and toolname = "''fastq-dump''" and w = world0 and c = 3 and s = 9
          and code = "childCode demo ''SRR000001'' ''.fastq'' ''fastq-dump''
                        ''/usr/bin/fastq-dump-orig'' [] None \<lparr>service = ''D''\<rparr>"
          and pre = "[]" and src = "\<lparr>service = ''B''\<rparr>" and post = "[]"
          and extension = "''.fastq''" and toolpath = "''/usr/bin/fastq-dump-orig''"
          and parameters = "[]" and outputFile = None and w' = world0 and h = Abort]
        child_termination_classified[where ex = demo and run = "''SRR000003''"
          and toolname = "''fastq-dump''" and w = world0 and c = 3 and s = 9
          and code = "childCode demo ''SRR000003'' ''.fastq'' ''fastq-dump''
                        ''/usr/bin/fastq-dump-orig'' [] None \<lparr>service = ''C''\<rparr>"
          and pre = "[\<lparr>service = ''A''\<rparr>]" and src = "\<lparr>service = ''C''\<rparr>"
          and post = "[\<lparr>service = ''B''\<rparr>]"
          and extension = "''.fastq''" and toolpath = "''/usr/bin/fastq-dump-orig''"
          and parameters = "[]" and outputFile = None and w' = world0 and h = "Exit 3"]
        child_termination_classified[where ex = demo and run = "''SRR000004''"
          and toolname = "''fastq-dump''" and w = world0 and c = 3 and s = 9
          and code = "childCode demo ''SRR000004'' ''.fastq'' ''fastq-dump''
                        ''/usr/bin/fastq-dump-orig'' [] None \<lparr>service = ''D''\<rparr>"
          and pre = "[\<lparr>service = ''A''\<rparr>]" and src = "\<lparr>service = ''D''\<rparr>"
          and post = "[\<lparr>service = ''B''\<rparr>]"
          and extension = "''.fastq''" and toolpath = "''/usr/bin/fastq-dump-orig''"
          and parameters = "[]" and outputFile = None and w' = world0 and h = Abort]
  by (simp add: data_sources_demo status_demo pid_demo transient_prefix_def
      EX_TEMPFAIL_def world0_def dec_int_def dec_nat.simps)

text \<open>
  Claim C2.  For a run with a non-empty source list, \<open>processRun\<close> tries the sources in
  the order the resolver gave them and stops at the first success: when the sources
  before \<open>src\<close> all report a transient failure and the child for \<open>src\<close> exits with 0,
  the run succeeds and the children spawned are exactly those for the sources up to
  \<open>src\<close>, in order.  When every source reports a transient failure, all of them are
  tried in order, the label of each is printed (between the two lines of
  \<open>exhausted_messages\<close>) and the process ends by \<open>exit(EX_TEMPFAIL)\<close>.
\<close>

theorem sources_tried_in_order:
  "(data_sources ex run = pre @ src # post
      \<and> transient_prefix ex (childCode ex run extension toolname toolpath parameters outputFile) pre w
      \<and> status (run_child ex (length (children w) + length pre)
                  (childCode ex run extension toolname toolpath parameters outputFile src)) = Exited 0 \<longrightarrow>
      fst (processRun ex run extension toolname toolpath parameters outputFile w) = Inr ()
    \<and> children (snd (processRun ex run extension toolname toolpath parameters outputFile w)) =
        children w
          @ map (childCode ex run extension toolname toolpath parameters outputFile) (pre @ [src])
    \<and> map inv_source
        (drop (length (children w))
           (children (snd (processRun ex run extension toolname toolpath parameters outputFile w))))
        = pre @ [src])
   \<and> (data_sources ex run \<noteq> []
      \<and> transient_prefix ex (childCode ex run extension toolname toolpath parameters outputFile)
           (data_sources ex run) w \<longrightarrow>
      fst (processRun ex run extension toolname toolpath parameters outputFile w)
        = Inl (Exit EX_TEMPFAIL)
    \<and> map inv_source
        (drop (length (children w))
           (children (snd (processRun ex run extension toolname toolpath parameters outputFile w))))
        = data_sources ex run
    \<and> cerr (snd (processRun ex run extension toolname toolpath parameters outputFile w)) =
        cerr w @ exhausted_messages run (data_sources ex run)
    \<and> (\<forall>src \<in> set (data_sources ex run).
          CHR 0x09 # service src
            \<in> set (cerr (snd (processRun ex run extension toolname toolpath parameters outputFile w)))))"
proof -
  let ?code = "childCode ex run extension toolname toolpath parameters outputFile"
  let ?P = "processRun ex run extension toolname toolpath parameters outputFile w"
  have A: "data_sources ex run = pre @ src # post
      \<and> transient_prefix ex ?code pre w
      \<and> status (run_child ex (length (children w) + length pre) (?code src)) = Exited 0 \<longrightarrow>
      fst ?P = Inr ()
    \<and> children (snd ?P) = children w @ map ?code (pre @ [src])
    \<and> map inv_source (drop (length (children w)) (children (snd ?P))) = pre @ [src]"
  proof (intro impI, elim conjE)
    assume ds: "data_sources ex run = pre @ src # post"
      and tp: "transient_prefix ex ?code pre w"
      and ok: "status (run_child ex (length (children w) + length pre) (?code src)) = Exited 0"
    let ?w = "w\<lparr>ce_token_runs := ce_token_runs w @ [run],
                logged := logged w @ map (failed_log run) pre,
                children := children w @ map ?code pre\<rparr>"
    have len: "length (children ?w) = length (children w) + length pre" by simp
    from ok have "status (run_child ex (length (children ?w)) (?code src)) = Exited 0"
      by (simp only: len)
    from processSource_success[OF this, of run toolname]
    have P: "fst ?P = Inr () \<and> children (snd ?P) = children w @ map ?code (pre @ [src])"
      by (simp add: processRun_after_prefix[OF ds _ tp] LOG_def)
    then have "map inv_source (drop (length (children w)) (children (snd ?P)))
                 = map inv_source (map ?code (pre @ [src]))"
      by simp
    with P show "fst ?P = Inr ()
      \<and> children (snd ?P) = children w @ map ?code (pre @ [src])
      \<and> map inv_source (drop (length (children w)) (children (snd ?P))) = pre @ [src]"
      by (simp only: inv_source_childCode)
  qed
  have B: "data_sources ex run \<noteq> [] \<and> transient_prefix ex ?code (data_sources ex run) w \<longrightarrow>
      fst ?P = Inl (Exit EX_TEMPFAIL)
    \<and> map inv_source (drop (length (children w)) (children (snd ?P))) = data_sources ex run
    \<and> cerr (snd ?P) = cerr w @ exhausted_messages run (data_sources ex run)
    \<and> (\<forall>src \<in> set (data_sources ex run). CHR 0x09 # service src \<in> set (cerr (snd ?P)))"
  proof (intro impI, elim conjE)
    assume ne: "data_sources ex run \<noteq> []"
      and tp: "transient_prefix ex ?code (data_sources ex run) w"
    let ?w0 = "w\<lparr>ce_token_runs := ce_token_runs w @ [run]\<rparr>"
    have "data_sources ex run = data_sources ex run @ []" by simp
    from processRun_after_prefix[OF this _ tp]
    have P: "fst ?P = Inl (Exit EX_TEMPFAIL)"
      "children (snd ?P) = children w @ map ?code (data_sources ex run)"
      "cerr (snd ?P) = cerr w @ exhausted_messages run (data_sources ex run)"
      using ne by simp_all
    have "map inv_source (drop (length (children w)) (children (snd ?P)))
            = map inv_source (map ?code (data_sources ex run))"
      by (simp add: P)
    then have src: "map inv_source (drop (length (children w)) (children (snd ?P))) = data_sources ex run"
      by (simp only: inv_source_childCode)
    have labels: "\<forall>src \<in> set (data_sources ex run). CHR 0x09 # service src \<in> set (cerr (snd ?P))"
      by (simp add: P exhausted_messages_def)
    from src labels show "fst ?P = Inl (Exit EX_TEMPFAIL)
      \<and> map inv_source (drop (length (children w)) (children (snd ?P))) = data_sources ex run
      \<and> cerr (snd ?P) = cerr w @ exhausted_messages run (data_sources ex run)
      \<and> (\<forall>src \<in> set (data_sources ex run). CHR 0x09 # service src \<in> set (cerr (snd ?P)))"
      by (simp add: P)
  qed
  from A B show ?thesis by blast
qed

text \<open>
  Claim C2 on the sources \<open>[A, B]\<close>: with \<open>A\<close> failing transiently and \<open>B\<close> succeeding
  (run \<open>SRR000001\<close>) two children are spawned, for \<open>A\<close> then \<open>B\<close>; with both failing
  transiently (run \<open>SRR000002\<close>) both are tried and both labels are printed before
  \<open>exit(75)\<close>.
\<close>

theorem sources_tried_in_order_witness:
  "fst (processRun demo ''SRR000001'' ''.fastq'' ''fastq-dump'' ''/usr/bin/fastq-dump-orig''
          [] None world0) = Inr ()
   \<and> map inv_source (children (snd (processRun demo ''SRR000001'' ''.fastq'' ''fastq-dump''
          ''/usr/bin/fastq-dump-orig'' [] None world0)))
       = [\<lparr>service = ''A''\<rparr>, \<lparr>service = ''B''\<rparr>]
   \<and> fst (processRun demo ''SRR000002'' ''.fastq'' ''fastq-dump'' ''/usr/bin/fastq-dump-orig''
          [] None world0) = Inl (Exit 75)
   \<and> map inv_source (children (snd (processRun demo ''SRR000002'' ''.fastq'' ''fastq-dump''
          ''/usr/bin/fastq-dump-orig'' [] None world0)))
       = [\<lparr>service = ''A''\<rparr>, \<lparr>service = ''B''\<rparr>]
   \<and> cerr (snd (processRun demo ''SRR000002'' ''.fastq'' ''fastq-dump''
          ''/usr/bin/fastq-dump-orig'' [] None world0))
       = [''Could not get any data for SRR000002, tried to get data from:'',
          CHR 0x09 # ''A'', CHR 0x09 # ''B'',
          ''This may be temporary, you should retry later.'']"
  using sources_tried_in_order[where ex = demo and run = "''SRR000001''"
          and pre = "[\<lparr>service = ''A''\<rparr>]" and src = "\<lparr>service = ''B''\<rparr>" and post = "[]"
          and extension = "''.fastq''" and toolname = "''fastq-dump''"
          and toolpath = "''/usr/bin/fastq-dump-orig''" and parameters = "[]"
          and outputFile = None and w = world0]
        sources_tried_in_order[where ex = demo and run = "''SRR000002''"
          and pre = "[]" and src = "\<lparr>service = ''A''\<rparr>" and post = "[\<lparr>service = ''B''\<rparr>]"
          and extension = "''.fastq''" and toolname = "''fastq-dump''"
          and toolpath = "''/usr/bin/fastq-dump-orig''" and parameters = "[]"
          and outputFile = None and w = world0]
  by (simp add: data_sources_demo status_demo transient_prefix_def All_less_Suc
      exhausted_messages_def EX_TEMPFAIL_def world0_def)




text \<open>
  Claim C4.  For a query made of a letter among \<open>D\<close>, \<open>E\<close>, \<open>S\<close>, then \<open>R\<close>, then a
  letter among \<open>A\<close>, \<open>P\<close>, \<open>R\<close>, \<open>S\<close>, \<open>X\<close>, then decimal digits, then nothing or a
  dot (and whatever follows the dot), \<open>SRA_AccessionType\<close> accepts (returns the third
  character rather than 0) exactly when there are 6 to 9 digits; an accepted \<open>R\<close> is a
  Run and an accepted \<open>P\<close>, \<open>S\<close> or \<open>X\<close> a Container.  With fewer or more digits
  (5 and 10 among them), or with a first, second or third character outside its set, or
  with a character that is neither a digit nor a dot in the digit run, the query is
  Unrecognized.
\<close>

theorem SRA_AccessionType_digit_bounds:
  "(ca \<in> set ''DES'' \<and> cc \<in> set ''APRSX'' \<and> (\<forall>d\<in>set ds. is_dec_digit d)
      \<and> (tail = [] \<or> (\<exists>rest. tail = CHR ''.'' # rest)) \<longrightarrow>
      (SRA_AccessionType (ca # CHR ''R'' # cc # ds @ tail) \<noteq> 0
         \<longleftrightarrow> 6 \<le> length ds \<and> length ds \<le> 9)
    \<and> SRA_AccessionType (ca # CHR ''R'' # cc # ds @ tail) =
        (if 6 \<le> length ds \<and> length ds \<le> 9 then type_code cc else 0)
    \<and> classify (ca # CHR ''R'' # cc # ds @ tail) =
        (if 6 \<le> length ds \<and> length ds \<le> 9
         then (if cc = CHR ''R'' then Run
               else if cc \<in> set ''PSX'' then Container else Unrecognized)
         else Unrecognized))
   \<and> (xa \<notin> set ''DES'' \<longrightarrow> classify (xa # qa) = Unrecognized)
   \<and> (xb \<noteq> CHR ''R'' \<longrightarrow> classify (ya # xb # qb) = Unrecognized)
   \<and> (xc \<notin> set ''APRSX'' \<longrightarrow> classify (yb # yc # xc # qc) = Unrecognized)
   \<and> ((\<forall>d\<in>set es. is_dec_digit d) \<and> \<not> is_dec_digit x \<and> x \<noteq> CHR ''.'' \<longrightarrow>
        classify (yd # ye # yf # es @ x # qd) = Unrecognized)"
proof -
  have nz: "type_code cc \<noteq> 0" if "cc \<in> set ''APRSX''"
    using that by (auto simp: type_code_def)
  have A: "ca \<in> set ''DES'' \<and> cc \<in> set ''APRSX'' \<and> (\<forall>d\<in>set ds. is_dec_digit d)
      \<and> (tail = [] \<or> (\<exists>rest. tail = CHR ''.'' # rest)) \<longrightarrow>
      (SRA_AccessionType (ca # CHR ''R'' # cc # ds @ tail) \<noteq> 0
         \<longleftrightarrow> 6 \<le> length ds \<and> length ds \<le> 9)
    \<and> SRA_AccessionType (ca # CHR ''R'' # cc # ds @ tail) =
        (if 6 \<le> length ds \<and> length ds \<le> 9 then type_code cc else 0)
    \<and> classify (ca # CHR ''R'' # cc # ds @ tail) =
        (if 6 \<le> length ds \<and> length ds \<le> 9
         then (if cc = CHR ''R'' then Run
               else if cc \<in> set ''PSX'' then Container else Unrecognized)
         else Unrecognized)"
    using well_formed_type[of ca cc ds tail] nz category_of_code[of cc] category_0
    by (simp add: classify_def)
  have B: "xa \<notin> set ''DES'' \<longrightarrow> classify (xa # qa) = Unrecognized"
    by (simp add: classify_def bad_first category_0)
  have C: "xb \<noteq> CHR ''R'' \<longrightarrow> classify (ya # xb # qb) = Unrecognized"
    by (simp add: classify_def bad_second category_0)
  have D: "xc \<notin> set ''APRSX'' \<longrightarrow> classify (yb # yc # xc # qc) = Unrecognized"
    by (simp add: classify_def bad_third category_0)
  have E: "(\<forall>d\<in>set es. is_dec_digit d) \<and> \<not> is_dec_digit x \<and> x \<noteq> CHR ''.'' \<longrightarrow>
        classify (yd # ye # yf # es @ x # qd) = Unrecognized"
    by (simp add: classify_def bad_digit category_0)
  from A B C D E show ?thesis by blast
qed

text \<open>Claim C4 at 6, 5, 9 and 10 digits and at one bad character per position.\<close>

theorem SRA_AccessionType_digit_bounds_witness:
  "classify ''SRR000001'' = Run \<and> classify ''SRR00001'' = Unrecognized
   \<and> classify ''ERX123456789.2'' = Container \<and> classify ''ERX1234567890'' = Unrecognized
   \<and> classify ''XRR000001'' = Unrecognized \<and> classify ''SQR000001'' = Unrecognized
   \<and> classify ''SRZ000001'' = Unrecognized \<and> classify ''SRR0000x1'' = Unrecognized"
  using SRA_AccessionType_digit_bounds[where ca = "CHR ''S''" and cc = "CHR ''R''"
          and ds = "''000001''" and tail = "[]"
          and xa = "CHR ''X''" and qa = "''RR000001''"
          and ya = "CHR ''S''" and xb = "CHR ''Q''" and qb = "''R000001''"
          and yb = "CHR ''S''" and yc = "CHR ''R''" and xc = "CHR ''Z''" and qc = "''000001''"
          and yd = "CHR ''S''" and ye = "CHR ''R''" and yf = "CHR ''R''" and es = "''0000''"
          and x = "CHR ''x''" and qd = "''1''"]
        SRA_AccessionType_digit_bounds[where ca = "CHR ''S''" and cc = "CHR ''R''"
          and ds = "''00001''" and tail = "[]"
          and xa = "CHR ''X''" and qa = "''RR000001''"
          and ya = "CHR ''S''" and xb = "CHR ''Q''" and qb = "''R000001''"
          and yb = "CHR ''S''" and yc = "CHR ''R''" and xc = "CHR ''Z''" and qc = "''000001''"
          and yd = "CHR ''S''" and ye = "CHR ''R''" and yf = "CHR ''R''" and es = "''0000''"
          and x = "CHR ''x''" and qd = "''1''"]
        SRA_AccessionType_digit_bounds[where ca = "CHR ''E''" and cc = "CHR ''X''"
          and ds = "''123456789''" and tail = "''.2''"
          and xa = "CHR ''X''" and qa = "''RR000001''"
          and ya = "CHR ''S''" and xb = "CHR ''Q''" and qb = "''R000001''"
          and yb = "CHR ''S''" and yc = "CHR ''R''" and xc = "CHR ''Z''" and qc = "''000001''"
          and yd = "CHR ''S''" and ye = "CHR ''R''" and yf = "CHR ''R''" and es = "''0000''"
          and x = "CHR ''x''" and qd = "''1''"]
        SRA_AccessionType_digit_bounds[where ca = "CHR ''E''" and cc = "CHR ''X''"
          and ds = "''1234567890''" and tail = "[]"
          and xa = "CHR ''X''" and qa = "''RR000001''"
          and ya = "CHR ''S''" and xb = "CHR ''Q''" and qb = "''R000001''"
          and yb = "CHR ''S''" and yc = "CHR ''R''" and xc = "CHR ''Z''" and qc = "''000001''"
          and yd = "CHR ''S''" and ye = "CHR ''R''" and yf = "CHR ''R''" and es = "''0000''"
          and x = "CHR ''x''" and qd = "''1''"]
  by (simp add: is_dec_digit_def)

text \<open>
  Claim C5.  Every query whose third character is \<open>A\<close> is Unrecognized: the type code
  is 0 or \<open>'A'\<close>, and the \<open>switch\<close> of \<open>expandAll\<close> has no case for either.
\<close>

theorem submitter_unrecognized:
  "2 < length query \<Longrightarrow> query ! 2 = CHR ''A'' \<Longrightarrow> classify query = Unrecognized"
proof -
  assume len: "2 < length query" and third: "query ! 2 = CHR ''A''"
  from len obtain c1 c2 c3 q where q: "query = c1 # c2 # c3 # q"
    by (cases query; cases "tl query"; cases "tl (tl query)") auto
  with third have "c3 = CHR ''A''" by simp
  with third_range[of c1 c2 c3 q] q show ?thesis
    by (auto simp: classify_def accession_category_def type_code_def)
qed

text \<open>Claim C5 on \<open>SRA000001\<close>, whose type code is \<open>'A'\<close> (65).\<close>

theorem submitter_unrecognized_witness:
  "2 < length ''SRA000001'' \<and> ''SRA000001'' ! 2 = CHR ''A''
   \<and> SRA_AccessionType ''SRA000001'' = 65 \<and> classify ''SRA000001'' = Unrecognized"
proof -
  have h: "2 < length ''SRA000001''" "''SRA000001'' ! 2 = CHR ''A''" by simp_all
  have "SRA_AccessionType ''SRA000001'' = 65"
    by (simp add: SRA_AccessionType_def accession_done_def type_code_def is_dec_digit_def)
  with h submitter_unrecognized[OF h] show ?thesis by simp
qed

text \<open>
  Claim C6 says that a run for which the resolver returns no source ends the whole
  process with \<open>EX_TEMPFAIL\<close>.  It does not: \<open>processRun\<close> prints its message and
  returns, and \<open>processAccessions\<close> goes on with the next run.  Here the first run has
  no source, the second run is processed and the process exits with 0.
\<close>

theorem empty_sources_counterexample:
  "data_sources ex_second_run ''SRR000001'' = []
   \<and> fst (processRun ex_second_run ''SRR000001'' ''.fastq'' ''fastq-dump''
            ''/usr/bin/fastq-dump-orig'' [] None world0) = Inr ()
   \<and> fst (processAccessions ex_second_run ''fastq-dump'' ''/usr/bin/fastq-dump-orig'' None
            ''.fastq'' [] [''SRR000001'', ''SRR000002''] world0) = Exit 0
   \<and> fst (processAccessions ex_second_run ''fastq-dump'' ''/usr/bin/fastq-dump-orig'' None
            ''.fastq'' [] [''SRR000001'', ''SRR000002''] world0) \<noteq> Exit EX_TEMPFAIL
   \<and> map inv_run (children (snd (processAccessions ex_second_run ''fastq-dump''
            ''/usr/bin/fastq-dump-orig'' None ''.fastq'' [] [''SRR000001'', ''SRR000002''] world0)))
       = [''SRR000002'']"
proof -
  have runs: "expandAll ex_second_run [''SRR000001'', ''SRR000002''] w
                = (Inr [''SRR000001'', ''SRR000002''], w)" for w
    by (simp add: expandAll_eq reported_containers_def classify_SRR000001 classify_SRR000002)
  have ds: "data_sources ex_second_run ''SRR000001'' = []"
    "data_sources ex_second_run ''SRR000002'' = [\<lparr>service = ''ncbi''\<rparr>]"
    by (simp_all add: ex_second_run_def)
  have rc: "run_child ex_second_run n code = \<lparr>pid = 4242, status = Exited 0\<rparr>" for n code
    by (simp add: ex_second_run_def)
  show ?thesis
    by (simp add: processAccessions_def runs select_outputFile_def processRun_def
        processSource_def childCode_def ds rc world0_def print_cerr_def LOG_def
        EX_TEMPFAIL_def Let_def)
qed

text \<open>
  Claim C6, amended.  For a run for which the resolver returns no source, \<open>processRun\<close>
  prints \<open>no_source_message\<close>, spawns no child and returns to its caller; the loop over
  the runs continues with the runs that follow.
\<close>

theorem empty_sources_skip_run:
  "data_sources ex run = [] \<longrightarrow>
     processRun ex run extension toolname toolpath parameters outputFile w =
       (Inr (), print_cerr (no_source_message run) w)
   \<and> cerr (snd (processRun ex run extension toolname toolpath parameters outputFile w)) =
       cerr w @ [''Could not get any data for '' @ run @ '', there is no accessible source.'']
   \<and> children (snd (processRun ex run extension toolname toolpath parameters outputFile w)) =
       children w
   \<and> process_runs ex (run # runs) extension toolname toolpath parameters outputFile w =
       process_runs ex runs extension toolname toolpath parameters outputFile
         (print_cerr (no_source_message run) (LOG 3 (''Processing '' @ run @ '' ...'') w))"
  by (simp add: processRun_def print_cerr_def no_source_message_def)

theorem empty_sources_skip_run_witness:
  "data_sources ex_second_run ''SRR000001'' = []
   \<and> processRun ex_second_run ''SRR000001'' ''.fastq'' ''fastq-dump''
        ''/usr/bin/fastq-dump-orig'' [] None world0
     = (Inr (), print_cerr (no_source_message ''SRR000001'') world0)
   \<and> cerr (snd (processRun ex_second_run ''SRR000001'' ''.fastq'' ''fastq-dump''
        ''/usr/bin/fastq-dump-orig'' [] None world0))
     = [''Could not get any data for SRR000001, there is no accessible source.'']"
proof -
  have ds: "data_sources ex_second_run ''SRR000001'' = []"
    by (simp add: ex_second_run_def)
  from empty_sources_skip_run[of ex_second_run "''SRR000001''" "''.fastq''" "''fastq-dump''"
          "''/usr/bin/fastq-dump-orig''" "[]" None world0 "[]"] ds
  show ?thesis
    by (simp add: world0_def print_cerr_def no_source_message_def)
qed

text \<open>
  Claim C7.  The loop of \<open>expandAll\<close> keeps the first occurrence of every accession, in
  the order of the input; when \<open>expandAll\<close> returns, the run list is that list, it has
  no duplicates and it holds every accession of the input.  The input
  \<open>[SRR000001, SRR000001]\<close> gives the single run \<open>SRR000001\<close>.
\<close>

theorem duplicates_collapse:
  "fst (expand_loop ex accessions [] {} False w) = first_occurrences accessions
   \<and> (fst (expandAll ex accessions w) = Inr runs \<longrightarrow>
        runs = first_occurrences accessions \<and> distinct runs \<and> set runs = set accessions)
   \<and> fst (expandAll ex [''SRR000001'', ''SRR000001''] w) = Inr [''SRR000001'']"
proof -
  have run: "classify ''SRR000001'' = Run"
    by (simp add: classify_def SRA_AccessionType_def accession_category_def accession_done_def
        type_code_def is_dec_digit_def)
  have "reported_containers ex [''SRR000001'', ''SRR000001''] = []"
    by (simp add: reported_containers_def run)
  then have ex1: "fst (expandAll ex [''SRR000001'', ''SRR000001''] w) = Inr [''SRR000001'']"
    by (simp add: expandAll_eq)
  have loop: "fst (expand_loop ex accessions [] {} False w) = first_occurrences accessions"
    by (simp add: expand_loop_eq Let_def)
  have out: "fst (expandAll ex accessions w) = Inr runs \<longrightarrow>
        runs = first_occurrences accessions \<and> distinct runs \<and> set runs = set accessions"
    by (auto simp: expandAll_eq split: if_splits)
  from loop out ex1 show ?thesis by blast
qed

theorem duplicates_collapse_witness:
  "fst (expandAll demo [''SRR000001'', ''SRR000002'', ''SRR000001''] world0)
     = Inr [''SRR000001'', ''SRR000002'']
   \<and> first_occurrences [''SRR000001'', ''SRR000002'', ''SRR000001'']
     = [''SRR000001'', ''SRR000002'']"
proof -
  have "expandAll demo [''SRR000001'', ''SRR000002'', ''SRR000001''] world0
          = (Inr [''SRR000001'', ''SRR000002''], world0)"
    by (simp add: expandAll_def expand_check_def readable_demo classify_SRR000001[unfolded classify_def]
        classify_SRR000002[unfolded classify_def])
  then have h: "fst (expandAll demo [''SRR000001'', ''SRR000002'', ''SRR000001''] world0)
          = Inr [''SRR000001'', ''SRR000002'']"
    by simp
  with duplicates_collapse[of demo "[''SRR000001'', ''SRR000002'', ''SRR000001'']" world0
          "[''SRR000001'', ''SRR000002'']"]
  show ?thesis by simp
qed

text \<open>
  Claim C8 says that no entry of the run list has category Container.  A readable path
  is passed through without being classified, also when its name has the shape of a
  container accession: with a readable file \<open>SRP000001\<close>, that name is in the run list.
\<close>

theorem run_list_categories_counterexample:
  "fst (expandAll demo [''SRP000001''] world0) = Inr [''SRP000001'']
   \<and> classify ''SRP000001'' = Container"
  by (simp add: expandAll_def expand_check_def readable_demo classify_SRP000001)

text \<open>
  Claim C8, amended.  Every entry of the run list is a readable path, or has category
  Run, or has category Unrecognized; no entry that is not a readable path has category
  Container.
\<close>

theorem run_list_categories:
  "fst (expandAll ex accessions w) = Inr runs \<Longrightarrow> r \<in> set runs \<Longrightarrow>
     readable ex r \<or> classify r = Run \<or> classify r = Unrecognized"
proof -
  assume ok: "fst (expandAll ex accessions w) = Inr runs" and r: "r \<in> set runs"
  from ok have none: "reported_containers ex accessions = []" and runs: "runs = first_occurrences accessions"
    by (auto simp: expandAll_eq split: if_splits)
  from r runs have "r \<in> set accessions" by simp
  with none have "\<not> (\<not> readable ex r \<and> classify r = Container)"
    using set_reported_containers[of ex accessions] by auto
  then show ?thesis by (cases "classify r") auto
qed

theorem run_list_categories_witness:
  "fst (expandAll demo [''SRR000001'', ''SRP000001''] world0) = Inr [''SRR000001'', ''SRP000001'']
   \<and> ''SRR000001'' \<in> set [''SRR000001'', ''SRP000001'']
   \<and> \<not> readable demo ''SRR000001'' \<and> classify ''SRR000001'' = Run"
proof -
  have h: "fst (expandAll demo [''SRR000001'', ''SRP000001''] world0)
             = Inr [''SRR000001'', ''SRP000001'']"
    by (simp add: expandAll_def expand_check_def readable_demo
        classify_SRR000001[unfolded classify_def])
  have m: "''SRR000001'' \<in> set [''SRR000001'', ''SRP000001'']" by simp
  from run_list_categories[OF h m] h show ?thesis
    by (simp add: readable_demo classify_SRR000001)
qed

text \<open>
  Claim C9.  When \<open>expandAll\<close> returns a run list, running it again on that list (with
  the same readable paths) returns the same list and prints nothing.
\<close>

theorem expandAll_idempotent:
  "fst (expandAll ex accessions w) = Inr runs \<Longrightarrow> expandAll ex runs w' = (Inr runs, w')"
proof -
  assume ok: "fst (expandAll ex accessions w) = Inr runs"
  then have none: "reported_containers ex accessions = []" and runs: "runs = first_occurrences accessions"
    by (auto simp: expandAll_eq split: if_splits)
  have "reported_containers ex runs = []"
    using none by (simp add: reported_containers_def runs)
  then show ?thesis by (simp add: expandAll_eq runs)
qed

theorem expandAll_idempotent_witness:
  "fst (expandAll demo [''SRR000001'', ''SRR000001'', ''SRP000001''] world0)
     = Inr [''SRR000001'', ''SRP000001'']
   \<and> expandAll demo [''SRR000001'', ''SRP000001''] world0
     = (Inr [''SRR000001'', ''SRP000001''], world0)"
proof -
  have h: "fst (expandAll demo [''SRR000001'', ''SRR000001'', ''SRP000001''] world0)
             = Inr [''SRR000001'', ''SRP000001'']"
    by (simp add: expandAll_def expand_check_def readable_demo
        classify_SRR000001[unfolded classify_def])
  from expandAll_idempotent[OF h, of world0] h show ?thesis by simp
qed

text \<open>
  Claim C10.  With more than one run and an unsafe output parameter name, the scan asks
  every entry of that name it reaches for its value without a guard.  When every entry of
  that name carries a value the scan does not fault; an entry of that name without a
  value, reached before any entry of that name with a value other than \<open>/dev/null\<close>,
  makes the scan (and with it \<open>processAccessions\<close>) fault.  With a single run, or with
  no unsafe parameter name, there is no scan.
\<close>

theorem unsafe_output_value_unguarded:
  "((\<forall>i\<in>set parameters. fst i = name \<longrightarrow> snd i \<noteq> None) \<longrightarrow>
      select_outputFile runs (Some name) parameters \<noteq> Inl BadValueAccess)
   \<and> (1 < length runs \<and> (\<forall>i\<in>set pre. fst i = name \<longrightarrow> snd i = Some ''/dev/null'') \<longrightarrow>
      select_outputFile runs (Some name) (pre @ (name, None) # post) = Inl BadValueAccess)
   \<and> (fst (expandAll ex accessions w) = Inr runs \<and> 1 < length runs
       \<and> (\<forall>i\<in>set pre. fst i = name \<longrightarrow> snd i = Some ''/dev/null'') \<longrightarrow>
      fst (processAccessions ex toolname toolpath (Some name) extension
             (pre @ (name, None) # post) accessions w) = BadValueAccess)
   \<and> select_outputFile runs None parameters = Inr None
   \<and> (length runs \<le> 1 \<longrightarrow> select_outputFile runs (Some name) parameters = Inr None)"
proof -
  have A: "(\<forall>i\<in>set parameters. fst i = name \<longrightarrow> snd i \<noteq> None) \<longrightarrow>
      select_outputFile runs (Some name) parameters \<noteq> Inl BadValueAccess"
    using find_outputFile_safe[of parameters name 0] by (simp add: select_outputFile_def)
  have B: "1 < length runs \<and> (\<forall>i\<in>set pre. fst i = name \<longrightarrow> snd i = Some ''/dev/null'') \<longrightarrow>
      select_outputFile runs (Some name) (pre @ (name, None) # post) = Inl BadValueAccess"
    using find_outputFile_fault[of pre name post 0] by (simp add: select_outputFile_def)
  have C: "fst (expandAll ex accessions w) = Inr runs \<and> 1 < length runs
       \<and> (\<forall>i\<in>set pre. fst i = name \<longrightarrow> snd i = Some ''/dev/null'') \<longrightarrow>
      fst (processAccessions ex toolname toolpath (Some name) extension
             (pre @ (name, None) # post) accessions w) = BadValueAccess"
  proof (intro impI, elim conjE)
    assume e: "fst (expandAll ex accessions w) = Inr runs" and l: "1 < length runs"
      and p: "\<forall>i\<in>set pre. fst i = name \<longrightarrow> snd i = Some ''/dev/null''"
    from e l have ne: "accessions \<noteq> []" by (auto simp: expandAll_Nil)
    from e obtain w1 where e': "expandAll ex accessions w = (Inr runs, w1)"
      by (cases "expandAll ex accessions w") auto
    from B l p have "select_outputFile runs (Some name) (pre @ (name, None) # post) = Inl BadValueAccess"
      by blast
    with ne e' show "fst (processAccessions ex toolname toolpath (Some name) extension
             (pre @ (name, None) # post) accessions w) = BadValueAccess"
      by (simp add: processAccessions_def)
  qed
  have D: "select_outputFile runs None parameters = Inr None"
    by (simp add: select_outputFile_def)
  have E: "length runs \<le> 1 \<longrightarrow> select_outputFile runs (Some name) parameters = Inr None"
    by (simp add: select_outputFile_def)
  from A B C D E show ?thesis by blast
qed

theorem unsafe_output_value_unguarded_witness:
  "select_outputFile [''SRR000001'', ''SRR000002''] (Some ''--outfile'')
      [(''--threads'', Some ''4''), (''--outfile'', Some ''out.fastq'')] = Inr (Some 1)
   \<and> select_outputFile [''SRR000001'', ''SRR000002''] (Some ''--outfile'')
      [(''--outfile'', Some ''/dev/null''), (''--outfile'', None)] = Inl BadValueAccess
   \<and> fst (processAccessions demo ''fasterq-dump'' ''/usr/bin/fasterq-dump-orig''
            (Some ''--outfile'') ''.fastq''
            [(''--outfile'', Some ''/dev/null''), (''--outfile'', None)]
            [''SRR000001'', ''SRR000002''] world0) = BadValueAccess
   \<and> select_outputFile [''SRR000001''] (Some ''--outfile'') [(''--outfile'', None)] = Inr None"
proof -
  have h: "fst (expandAll demo [''SRR000001'', ''SRR000002''] world0)
             = Inr [''SRR000001'', ''SRR000002'']"
    by (simp add: expandAll_def expand_check_def readable_demo
        classify_SRR000001[unfolded classify_def] classify_SRR000002[unfolded classify_def])
  have v: "select_outputFile [''SRR000001'', ''SRR000002''] (Some ''--outfile'')
      [(''--threads'', Some ''4''), (''--outfile'', Some ''out.fastq'')] = Inr (Some 1)"
    by (simp add: select_outputFile_def)
  from h v
    unsafe_output_value_unguarded[of "[(''--threads'', Some ''4''), (''--outfile'', Some ''out.fastq'')]"
      "''--outfile''" "[''SRR000001'', ''SRR000002'']" "[(''--outfile'', Some ''/dev/null'')]" "[]"
      demo "[''SRR000001'', ''SRR000002'']" world0 "''fasterq-dump''"
      "''/usr/bin/fasterq-dump-orig''" "''.fastq''"]
    unsafe_output_value_unguarded[where runs = "[''SRR000001'']" and name = "''--outfile''"
      and parameters = "[(''--outfile'', None)]" and pre = "[]" and post = "[]" and ex = demo
      and accessions = "[]" and w = world0 and toolname = "[]" and toolpath = "[]"
      and extension = "[]"]
  show ?thesis by simp
qed

end
